theory Spec2Isabelle
  imports Main
begin

section \<open>Values, exceptions and the store handle\<close>

text \<open>
  The accessor \<^verbatim>\<open>RedisService\<close> is a class of static asynchronous methods over a
  module-level, nullable store handle \<^verbatim>\<open>redisClient\<close>. The model passes the handle
  explicitly (\<open>None\<close> is \<^verbatim>\<open>null\<close>) and threads a world through every method: the
  state of the remote store, the state of the caller's fallback producer, and the trace
  of everything the method did (store calls, fallback invocations, log calls).
\<close>

text \<open>JavaScript values, as far as the accessor looks at them.\<close>

datatype jsval =
    JUndefined
  | JNull
  | JBool bool
  | JNum int
  | JStr string
  | JArr "jsval list"
  | JObj "(string \<times> jsval) list"

text \<open>What \<^verbatim>\<open>if (x)\<close>, \<^verbatim>\<open>!x\<close> and \<^verbatim>\<open>x ? a : b\<close> test.\<close>

fun truthy :: "jsval \<Rightarrow> bool" where
  "truthy JUndefined = False"
| "truthy JNull = False"
| "truthy (JBool b) = b"
| "truthy (JNum n) = (n \<noteq> 0)"
| "truthy (JStr s) = (s \<noteq> [])"
| "truthy (JArr xs) = True"
| "truthy (JObj kvs) = True"

text \<open>A \<^verbatim>\<open>string | null\<close> or \<^verbatim>\<open>string | undefined\<close>: \<open>None\<close> is the absent value.\<close>

definition of_null :: "string option \<Rightarrow> jsval" where
  "of_null r = (case r of None \<Rightarrow> JNull | Some s \<Rightarrow> JStr s)"

definition of_undefined :: "string option \<Rightarrow> jsval" where
  "of_undefined r = (case r of None \<Rightarrow> JUndefined | Some s \<Rightarrow> JStr s)"

definition truthy_string :: "string option \<Rightarrow> bool" where
  "truthy_string r = (case r of None \<Rightarrow> False | Some s \<Rightarrow> s \<noteq> [])"

definition truthy_number :: "int \<Rightarrow> bool" where
  "truthy_number n = (n \<noteq> 0)"

definition truthy_flag :: "bool option \<Rightarrow> bool" where
  "truthy_flag b = (case b of None \<Rightarrow> False | Some v \<Rightarrow> v)"

text \<open>
  \<^verbatim>\<open>isDefined\<close> of \<^verbatim>\<open>common/helper/isEmpty.ts\<close>:
  \<^verbatim>\<open>obj !== undefined && obj !== null\<close>, on an optional value.
\<close>

definition isDefined :: "'a option \<Rightarrow> bool" where
  "isDefined obj = (case obj of None \<Rightarrow> False | Some v \<Rightarrow> True)"

datatype exn = Exn string

text \<open>Arguments of the hash methods: a field is a string or a number, and
  \<^verbatim>\<open>hDel\<close> takes one field name or an array of them.\<close>

datatype hvalue = HStr string | HNum int

datatype hfields = OneField string | ManyFields "string list"

text \<open>
  The store calls the accessor can issue. The option type of \<^verbatim>\<open>json.get\<close>
  (\<^verbatim>\<open>RedisJsonGetOptions\<close>) is declared outside the sources at hand and is a type
  parameter \<open>'o\<close>.
\<close>

datatype 'o store_call =
    SGet string
  | SSet string string
  | SDel string
  | SExpire string int
  | SHSet string "(string \<times> hvalue) list"
  | SHGet string string
  | SHGetAll string
  | SHDel string hfields
  | SJsonSet string string jsval
  | SJsonGet string "'o option"

datatype 'o event =
    Call "'o store_call"
  | Threw exn
  | Fallback
  | Warn
  | Error

text \<open>
  The store handle: every method of the client the accessor uses, as a function on the
  store's state that either throws (\<open>Inl\<close>) or returns. Nothing is assumed about
  what the methods do.
\<close>

record ('s, 'o) client =
  redis_get :: "string \<Rightarrow> 's \<Rightarrow> (exn + string option) \<times> 's"
  redis_set :: "string \<Rightarrow> string \<Rightarrow> 's \<Rightarrow> (exn + unit) \<times> 's"
  redis_del :: "string \<Rightarrow> 's \<Rightarrow> (exn + unit) \<times> 's"
  redis_expire :: "string \<Rightarrow> int \<Rightarrow> 's \<Rightarrow> (exn + unit) \<times> 's"
  redis_hSet :: "string \<Rightarrow> (string \<times> hvalue) list \<Rightarrow> 's \<Rightarrow> (exn + unit) \<times> 's"
  redis_hGet :: "string \<Rightarrow> string \<Rightarrow> 's \<Rightarrow> (exn + string option) \<times> 's"
  redis_hGetAll :: "string \<Rightarrow> 's \<Rightarrow> (exn + (string \<times> string) list) \<times> 's"
  redis_hDel :: "string \<Rightarrow> hfields \<Rightarrow> 's \<Rightarrow> (exn + unit) \<times> 's"
  redis_json_set :: "string \<Rightarrow> string \<Rightarrow> jsval \<Rightarrow> 's \<Rightarrow> (exn + unit) \<times> 's"
  redis_json_get :: "string \<Rightarrow> 'o option \<Rightarrow> 's \<Rightarrow> (exn + jsval) \<times> 's"

text \<open>
  A call of the fallback producer returns a value (directly or as a promise that
  resolves), throws before returning, or returns a promise that rejects. The producer may
  have state of its own.
\<close>

datatype 'a fb_outcome = Value 'a | SyncThrow exn | AsyncReject exn

type_synonym ('f, 'a) fallback = "'f \<Rightarrow> 'a fb_outcome \<times> 'f"

record ('s, 'f, 'o) world =
  store :: 's
  fbstate :: 'f
  trace :: "'o event list"

section \<open>Asynchronous control flow\<close>

text \<open>
  A method run on a world ends with its promise rejected (\<open>Inl\<close>) or resolved
  (\<open>Inr\<close>). Inside a \<^verbatim>\<open>try\<close> block a step either throws (\<open>Inl\<close>, which the
  \<^verbatim>\<open>catch\<close> handles) or goes on; the block ends in a \<^verbatim>\<open>return\<close> whose operand
  settles the method's promise. A promise returned without \<^verbatim>\<open>await\<close> that rejects
  is not seen by the enclosing \<^verbatim>\<open>catch\<close>.
\<close>

definition log :: "'o event \<Rightarrow> ('s, 'f, 'o) world \<Rightarrow> ('s, 'f, 'o) world" where
  "log ev w = w\<lparr>trace := trace w @ [ev]\<rparr>"

definition invoke ::
  "'o store_call \<Rightarrow> ('s \<Rightarrow> (exn + 'a) \<times> 's) \<Rightarrow> ('s, 'f, 'o) world
    \<Rightarrow> (exn + 'a) \<times> ('s, 'f, 'o) world" where
  "invoke c m w =
     (case m (store w) of
        (Inl e, s') \<Rightarrow> (Inl e, log (Threw e) (log (Call c) (w\<lparr>store := s'\<rparr>)))
      | (Inr v, s') \<Rightarrow> (Inr v, log (Call c) (w\<lparr>store := s'\<rparr>)))"

definition await ::
  "('w \<Rightarrow> (exn + 'a) \<times> 'w) \<Rightarrow> ('a \<Rightarrow> 'w \<Rightarrow> (exn + 'b) \<times> 'w) \<Rightarrow> 'w \<Rightarrow> (exn + 'b) \<times> 'w" where
  "await m k w = (case m w of (Inl e, w') \<Rightarrow> (Inl e, w') | (Inr v, w') \<Rightarrow> k v w')"

definition skip :: "'w \<Rightarrow> (exn + unit) \<times> 'w" where
  "skip w = (Inr (), w)"

definition ret :: "'a \<Rightarrow> 'w \<Rightarrow> (exn + (exn + 'a)) \<times> 'w" where
  "ret v w = (Inr (Inr v), w)"

definition try_catch ::
  "('w \<Rightarrow> (exn + (exn + 'a)) \<times> 'w) \<Rightarrow> (exn \<Rightarrow> 'w \<Rightarrow> (exn + 'a) \<times> 'w) \<Rightarrow> 'w \<Rightarrow> (exn + 'a) \<times> 'w" where
  "try_catch body handler w =
     (case body w of (Inl e, w') \<Rightarrow> handler e w' | (Inr r, w') \<Rightarrow> (r, w'))"

definition call_fallback ::
  "('f, 'a) fallback \<Rightarrow> ('s, 'f, 'o) world \<Rightarrow> 'a fb_outcome \<times> ('s, 'f, 'o) world" where
  "call_fallback fallback w =
     (case fallback (fbstate w) of (out, f') \<Rightarrow> (out, log Fallback (w\<lparr>fbstate := f'\<rparr>)))"

text \<open>\<^verbatim>\<open>await fallback()\<close>, and \<^verbatim>\<open>return fallback()\<close> outside any \<^verbatim>\<open>try\<close> block
  (the availability gate, the \<^verbatim>\<open>catch\<close> handlers): every failure of the producer is
  the outcome.\<close>

definition fallback_awaited ::
  "('f, 'a) fallback \<Rightarrow> ('a \<Rightarrow> 'b) \<Rightarrow> ('s, 'f, 'o) world \<Rightarrow> (exn + 'b) \<times> ('s, 'f, 'o) world" where
  "fallback_awaited fallback conv w =
     (case call_fallback fallback w of
        (Value v, w') \<Rightarrow> (Inr (conv v), w')
      | (SyncThrow e, w') \<Rightarrow> (Inl e, w')
      | (AsyncReject e, w') \<Rightarrow> (Inl e, w'))"

text \<open>\<^verbatim>\<open>return fallback()\<close> inside a \<^verbatim>\<open>try\<close> block: a synchronous throw is caught,
  a rejecting promise settles the method's promise.\<close>

definition fallback_returned ::
  "('f, 'a) fallback \<Rightarrow> ('a \<Rightarrow> 'b) \<Rightarrow> ('s, 'f, 'o) world
    \<Rightarrow> (exn + (exn + 'b)) \<times> ('s, 'f, 'o) world" where
  "fallback_returned fallback conv w =
     (case call_fallback fallback w of
        (Value v, w') \<Rightarrow> (Inr (Inr (conv v)), w')
      | (SyncThrow e, w') \<Rightarrow> (Inl e, w')
      | (AsyncReject e, w') \<Rightarrow> (Inr (Inl e), w'))"

section \<open>The accessor\<close>

text \<open>\<^verbatim>\<open>isRedisInitialized\<close>: \<^verbatim>\<open>!!redis\<close>. The handle is \<^verbatim>\<open>null\<close> after a
  failed connection and \<^verbatim>\<open>undefined\<close> before any; both are \<open>None\<close>. In the methods
  below the gate \<^verbatim>\<open>if (!RedisService.isRedisInitialized(redisClient))\<close> is the
  \<open>None\<close> branch of the case distinction on the handle.\<close>

definition isRedisInitialized :: "('s, 'o) client option \<Rightarrow> bool" where
  "isRedisInitialized redis = (case redis of None \<Rightarrow> False | Some c \<Rightarrow> True)"

record ttl_options =
  opt_ttl :: "int option"

record get_options =
  get_ttl :: "int option"
  get_resetIfNotFound :: "bool option"
  get_bypassFallbackIfNotFound :: "bool option"

text \<open>\<^verbatim>\<open>CustomRedisJsonGetOptions\<close> is declared outside the sources at hand;
  \<^verbatim>\<open>jsonGet\<close> destructures \<^verbatim>\<open>ttl\<close> and \<^verbatim>\<open>resetIfNotFound\<close> from it.\<close>

record json_get_options =
  json_ttl :: "int option"
  json_resetIfNotFound :: "bool option"

text \<open>The destructurings \<^verbatim>\<open>options?.ttl\<close>, \<^verbatim>\<open>let { ttl } = options ?? {}\<close> and
  \<^verbatim>\<open>const { ttl, resetIfNotFound = true, bypassFallbackIfNotFound } = customOptions ?? {}\<close>:
  a default applies where the option object or the property is undefined.\<close>

definition ttl_of_options :: "ttl_options option \<Rightarrow> int option" where
  "ttl_of_options options = (case options of None \<Rightarrow> None | Some opts \<Rightarrow> opt_ttl opts)"

definition ttl_of_get :: "get_options option \<Rightarrow> int option" where
  "ttl_of_get customOptions = (case customOptions of None \<Rightarrow> None | Some co \<Rightarrow> get_ttl co)"

definition resetIfNotFound_of_get :: "get_options option \<Rightarrow> bool" where
  "resetIfNotFound_of_get customOptions =
     (case customOptions of
        None \<Rightarrow> True
      | Some co \<Rightarrow> (case get_resetIfNotFound co of None \<Rightarrow> True | Some b \<Rightarrow> b))"

definition bypass_of_get :: "get_options option \<Rightarrow> bool option" where
  "bypass_of_get customOptions =
     (case customOptions of None \<Rightarrow> None | Some co \<Rightarrow> get_bypassFallbackIfNotFound co)"

definition ttl_of_json :: "json_get_options option \<Rightarrow> int option" where
  "ttl_of_json customOptions = (case customOptions of None \<Rightarrow> None | Some co \<Rightarrow> json_ttl co)"

definition resetIfNotFound_of_json :: "json_get_options option \<Rightarrow> bool" where
  "resetIfNotFound_of_json customOptions =
     (case customOptions of
        None \<Rightarrow> True
      | Some co \<Rightarrow> (case json_resetIfNotFound co of None \<Rightarrow> True | Some b \<Rightarrow> b))"

definition hSet ::
  "('s, 'o) client option \<Rightarrow> string \<Rightarrow> (string \<times> hvalue) list \<Rightarrow> int option
    \<Rightarrow> ('s, 'f, 'o) world \<Rightarrow> (exn + bool) \<times> ('s, 'f, 'o) world" where
  "hSet redisClient key val ttl w =
     (case redisClient of
        None \<Rightarrow> (Inr False, log Warn w)
      | Some c \<Rightarrow>
          try_catch
            (await (invoke (SHSet key val) (redis_hSet c key val)) (\<lambda>_.
             await (case ttl of
                      None \<Rightarrow> skip
                    | Some t \<Rightarrow> if truthy_number t
                                then invoke (SExpire key t) (redis_expire c key t) else skip) (\<lambda>_.
             ret True)))
            (\<lambda>error w'. (Inr False, log Error w')) w)"

definition hGet ::
  "('s, 'o) client option \<Rightarrow> string \<Rightarrow> string \<Rightarrow> ('f, jsval) fallback \<Rightarrow> int option
    \<Rightarrow> ('s, 'f, 'o) world \<Rightarrow> (exn + jsval) \<times> ('s, 'f, 'o) world" where
  "hGet redisClient key field fallback ttl w =
     (case redisClient of
        None \<Rightarrow> fallback_awaited fallback id (log Warn w)
      | Some c \<Rightarrow>
          try_catch
            (await (invoke (SHGet key field) (redis_hGet c key field)) (\<lambda>val.
             await (case ttl of
                      None \<Rightarrow> skip
                    | Some t \<Rightarrow> if truthy_number t
                                then invoke (SExpire key t) (redis_expire c key t) else skip) (\<lambda>_.
             if truthy_string val then ret (of_undefined val)
             else fallback_returned fallback id)))
            (\<lambda>error w'. fallback_awaited fallback id (log Error w')) w)"

definition hGetAll ::
  "('s, 'o) client option \<Rightarrow> string \<Rightarrow> ('f, jsval) fallback \<Rightarrow> int option
    \<Rightarrow> ('s, 'f, 'o) world \<Rightarrow> (exn + jsval) \<times> ('s, 'f, 'o) world" where
  "hGetAll redisClient key fallback ttl w =
     (case redisClient of
        None \<Rightarrow> fallback_awaited fallback id (log Warn w)
      | Some c \<Rightarrow>
          try_catch
            (await (invoke (SHGetAll key) (redis_hGetAll c key)) (\<lambda>result.
             await (case ttl of
                      None \<Rightarrow> skip
                    | Some t \<Rightarrow> if length (map fst result) \<noteq> 0 \<and> truthy_number t \<and> t > 0
                                then invoke (SExpire key t) (redis_expire c key t) else skip) (\<lambda>_.
             if length (map fst result) \<noteq> 0
             then ret (JObj (map (\<lambda>(k, v). (k, JStr v)) result))
             else fallback_returned fallback id)))
            (\<lambda>error w'. fallback_awaited fallback id (log Error w')) w)"

definition hDel ::
  "('s, 'o) client option \<Rightarrow> string \<Rightarrow> hfields
    \<Rightarrow> ('s, 'f, 'o) world \<Rightarrow> (exn + bool) \<times> ('s, 'f, 'o) world" where
  "hDel redisClient key field w =
     (case redisClient of
        None \<Rightarrow> (Inr False, log Warn w)
      | Some c \<Rightarrow>
          try_catch
            (await (invoke (SHDel key field) (redis_hDel c key field)) (\<lambda>_.
             ret True))
            (\<lambda>error w'. (Inr False, log Error w')) w)"

definition jsonSet ::
  "('s, 'o) client option \<Rightarrow> string \<Rightarrow> string \<Rightarrow> jsval \<Rightarrow> ttl_options option
    \<Rightarrow> ('s, 'f, 'o) world \<Rightarrow> (exn + bool) \<times> ('s, 'f, 'o) world" where
  "jsonSet redisClient key path val options w =
     (case redisClient of
        None \<Rightarrow> (Inr False, log Warn w)
      | Some c \<Rightarrow>
          try_catch
            (await (invoke (SJsonSet key path val) (redis_json_set c key path val)) (\<lambda>_.
             await (case ttl_of_options options of
                      None \<Rightarrow> skip
                    | Some t \<Rightarrow> if truthy_number t
                                then invoke (SExpire key t) (redis_expire c key t) else skip) (\<lambda>_.
             ret True)))
            (\<lambda>error w'. (Inr False, log Error w')) w)"

definition jsonGet ::
  "('s, 'o) client option \<Rightarrow> string \<Rightarrow> ('f, jsval) fallback \<Rightarrow> 'o option
    \<Rightarrow> json_get_options option
    \<Rightarrow> ('s, 'f, 'o) world \<Rightarrow> (exn + jsval) \<times> ('s, 'f, 'o) world" where
  "jsonGet redisClient key fallback options customOptions w =
     (case redisClient of
        None \<Rightarrow> fallback_awaited fallback id (log Warn w)
      | Some c \<Rightarrow>
          (let ttl = ttl_of_json customOptions;
               resetIfNotFound = resetIfNotFound_of_json customOptions
           in try_catch
                (await (invoke (SJsonGet key options) (redis_json_get c key options)) (\<lambda>result.
                 if \<not> truthy result \<and> resetIfNotFound then
                   await (fallback_awaited fallback id) (\<lambda>dataToCache.
                   await (jsonSet redisClient key ''$'' dataToCache (Some \<lparr>opt_ttl = ttl\<rparr>)) (\<lambda>_.
                   ret dataToCache))
                 else
                   await (case ttl of
                            None \<Rightarrow> skip
                          | Some t \<Rightarrow> if truthy result \<and> truthy_number t \<and> t > 0
                                      then invoke (SExpire key t) (redis_expire c key t)
                                      else skip) (\<lambda>_.
                   if truthy result then ret result
                   else fallback_returned fallback id)))
                (\<lambda>error w'. fallback_awaited fallback id (log Error w')) w))"

definition set_op ::
  "('s, 'o) client option \<Rightarrow> string \<Rightarrow> string \<Rightarrow> ttl_options option
    \<Rightarrow> ('s, 'f, 'o) world \<Rightarrow> (exn + bool) \<times> ('s, 'f, 'o) world" where
  "set_op redisClient key val options w =
     (case redisClient of
        None \<Rightarrow> (Inr False, log Warn w)
      | Some c \<Rightarrow>
          (let ttl = ttl_of_options options
           in try_catch
                (await (invoke (SSet key val) (redis_set c key val)) (\<lambda>_.
                 await (case ttl of
                          None \<Rightarrow> skip
                        | Some t \<Rightarrow> if isDefined ttl
                                    then invoke (SExpire key t) (redis_expire c key t)
                                    else skip) (\<lambda>_.
                 ret True)))
                (\<lambda>error w'. (Inr False, log Error w')) w))"

definition get ::
  "('s, 'o) client option \<Rightarrow> string \<Rightarrow> ('f, string option) fallback \<Rightarrow> get_options option
    \<Rightarrow> ('s, 'f, 'o) world \<Rightarrow> (exn + jsval) \<times> ('s, 'f, 'o) world" where
  "get redisClient key fallback customOptions w =
     (case redisClient of
        None \<Rightarrow> fallback_awaited fallback of_undefined (log Warn w)
      | Some c \<Rightarrow>
          (let ttl = ttl_of_get customOptions;
               resetIfNotFound = resetIfNotFound_of_get customOptions;
               bypassFallbackIfNotFound = bypass_of_get customOptions
           in try_catch
                (await (invoke (SGet key) (redis_get c key)) (\<lambda>result.
                 if \<not> truthy_string result \<and> resetIfNotFound then
                   await (fallback_awaited fallback id) (\<lambda>dataToCache.
                   await (if truthy_string dataToCache
                          then (case dataToCache of
                                  None \<Rightarrow> skip
                                | Some s \<Rightarrow>
                                    await (set_op redisClient key s (Some \<lparr>opt_ttl = ttl\<rparr>)) (\<lambda>_. skip))
                          else skip) (\<lambda>_.
                   ret (of_undefined dataToCache)))
                 else if truthy_flag bypassFallbackIfNotFound then ret (of_null result)
                 else if truthy_string result then ret (of_null result)
                 else fallback_returned fallback of_undefined))
                (\<lambda>error w'. fallback_awaited fallback of_undefined (log Error w')) w))"

definition del ::
  "('s, 'o) client option \<Rightarrow> string
    \<Rightarrow> ('s, 'f, 'o) world \<Rightarrow> (exn + bool) \<times> ('s, 'f, 'o) world" where
  "del redisClient key w =
     (case redisClient of
        None \<Rightarrow> (Inr True, log Warn w)
      | Some c \<Rightarrow>
          try_catch
            (await (invoke (SDel key) (redis_del c key)) (\<lambda>_.
             ret True))
            (\<lambda>error w'. (Inr False, log Error w')) w)"

section \<open>Observing a run\<close>

text \<open>What a method added to the trace, the store calls among it, how often the fallback
  producer was invoked, and whether a store call threw.\<close>

definition emitted :: "('s, 'f, 'o) world \<Rightarrow> ('s, 'f, 'o) world \<Rightarrow> 'o event list" where
  "emitted w w' = drop (length (trace w)) (trace w')"

fun store_calls :: "'o event list \<Rightarrow> 'o store_call list" where
  "store_calls [] = []"
| "store_calls (Call c # evs) = c # store_calls evs"
| "store_calls (Threw e # evs) = store_calls evs"
| "store_calls (Fallback # evs) = store_calls evs"
| "store_calls (Warn # evs) = store_calls evs"
| "store_calls (Error # evs) = store_calls evs"

fun fallback_calls :: "'o event list \<Rightarrow> nat" where
  "fallback_calls [] = 0"
| "fallback_calls (Fallback # evs) = Suc (fallback_calls evs)"
| "fallback_calls (Call c # evs) = fallback_calls evs"
| "fallback_calls (Threw e # evs) = fallback_calls evs"
| "fallback_calls (Warn # evs) = fallback_calls evs"
| "fallback_calls (Error # evs) = fallback_calls evs"

fun store_threw :: "'o event list \<Rightarrow> bool" where
  "store_threw [] = False"
| "store_threw (Threw e # evs) = True"
| "store_threw (Call c # evs) = store_threw evs"
| "store_threw (Fallback # evs) = store_threw evs"
| "store_threw (Warn # evs) = store_threw evs"
| "store_threw (Error # evs) = store_threw evs"

text \<open>The promise that \<^verbatim>\<open>fallback()\<close> stands for, as the caller of the producer
  sees it.\<close>

definition outcome_result :: "'a fb_outcome \<Rightarrow> exn + 'a" where
  "outcome_result out =
     (case out of Value v \<Rightarrow> Inr v | SyncThrow e \<Rightarrow> Inl e | AsyncReject e \<Rightarrow> Inl e)"

section \<open>A reference store\<close>

text \<open>
  An in-memory store with the client's interface, to run the accessor on: string keys,
  hashes, documents and one expiry per key. A document is read whole, or at one
  top-level member (the option of \<^verbatim>\<open>json.get\<close> is the member's name here). An
  expiry of zero or less removes the key at once; time does not pass otherwise.
  No method of \<open>mem_client\<close> throws; every method of \<open>down_client\<close> does.
\<close>

record mem =
  strings :: "string \<rightharpoonup> string"
  hashes :: "string \<rightharpoonup> (string \<times> string) list"
  documents :: "string \<rightharpoonup> jsval"
  expiry :: "string \<rightharpoonup> int"

definition mem_empty :: mem where
  "mem_empty = \<lparr>strings = Map.empty, hashes = Map.empty, documents = Map.empty,
                 expiry = Map.empty\<rparr>"

definition mem_exists :: "mem \<Rightarrow> string \<Rightarrow> bool" where
  "mem_exists m k = (strings m k \<noteq> None \<or> hashes m k \<noteq> None \<or> documents m k \<noteq> None)"

fun show_nat :: "nat \<Rightarrow> string" where
  "show_nat n =
     (if n < 10 then [char_of (48 + n)]
      else show_nat (n div 10) @ [char_of (48 + n mod 10)])"

definition show_hvalue :: "hvalue \<Rightarrow> string" where
  "show_hvalue v =
     (case v of
        HStr s \<Rightarrow> s
      | HNum n \<Rightarrow> (if n < 0 then CHR ''-'' # show_nat (nat (- n)) else show_nat (nat n)))"

fun upsert :: "(string \<times> string) list \<Rightarrow> string \<Rightarrow> string \<Rightarrow> (string \<times> string) list" where
  "upsert [] f v = [(f, v)]"
| "upsert ((g, u) # kvs) f v = (if g = f then (g, v) # kvs else (g, u) # upsert kvs f v)"

fun member_of :: "jsval \<Rightarrow> string \<Rightarrow> jsval" where
  "member_of (JObj kvs) f = (case map_of kvs f of None \<Rightarrow> JNull | Some v \<Rightarrow> v)"
| "member_of v f = JNull"

definition fields_of :: "hfields \<Rightarrow> string list" where
  "fields_of fs = (case fs of OneField f \<Rightarrow> [f] | ManyFields l \<Rightarrow> l)"

definition mem_client :: "(mem, string) client" where
  "mem_client =
     \<lparr>redis_get = (\<lambda>k m. (Inr (strings m k), m)),
      redis_set = (\<lambda>k v m. (Inr (), m\<lparr>strings := (strings m)(k \<mapsto> v),
                                           hashes := (hashes m)(k := None),
                                           documents := (documents m)(k := None),
                                           expiry := (expiry m)(k := None)\<rparr>)),
      redis_del = (\<lambda>k m. (Inr (), m\<lparr>strings := (strings m)(k := None),
                                         hashes := (hashes m)(k := None),
                                         documents := (documents m)(k := None),
                                         expiry := (expiry m)(k := None)\<rparr>)),
      redis_expire = (\<lambda>k t m.
         (Inr (), if \<not> mem_exists m k then m
                  else if t \<le> 0
                  then m\<lparr>strings := (strings m)(k := None),
                         hashes := (hashes m)(k := None),
                         documents := (documents m)(k := None),
                         expiry := (expiry m)(k := None)\<rparr>
                  else m\<lparr>expiry := (expiry m)(k \<mapsto> t)\<rparr>)),
      redis_hSet = (\<lambda>k fvs m.
         (Inr (), m\<lparr>hashes := (hashes m)(k \<mapsto>
                     foldl (\<lambda>h (f, v). upsert h f (show_hvalue v))
                       (case hashes m k of None \<Rightarrow> [] | Some h \<Rightarrow> h) fvs)\<rparr>)),
      redis_hGet = (\<lambda>k f m.
         (Inr (case hashes m k of None \<Rightarrow> None | Some h \<Rightarrow> map_of h f), m)),
      redis_hGetAll = (\<lambda>k m. (Inr (case hashes m k of None \<Rightarrow> [] | Some h \<Rightarrow> h), m)),
      redis_hDel = (\<lambda>k fs m.
         (Inr (), case hashes m k of
                    None \<Rightarrow> m
                  | Some h \<Rightarrow>
                      m\<lparr>hashes := (hashes m)(k \<mapsto>
                          filter (\<lambda>(f, v). f \<notin> set (fields_of fs)) h)\<rparr>)),
      redis_json_set = (\<lambda>k p v m.
         if p = ''$'' then (Inr (), m\<lparr>documents := (documents m)(k \<mapsto> v)\<rparr>)
         else (Inl (Exn ''ERR new objects must be created at the root''), m)),
      redis_json_get = (\<lambda>k opt m.
         (Inr (case documents m k of
                 None \<Rightarrow> JNull
               | Some d \<Rightarrow> (case opt of None \<Rightarrow> d | Some f \<Rightarrow> member_of d f)), m))\<rparr>"

definition down_client :: "(mem, string) client" where
  "down_client =
     \<lparr>redis_get = (\<lambda>k m. (Inl (Exn ''ECONNRESET''), m)),
      redis_set = (\<lambda>k v m. (Inl (Exn ''ECONNRESET''), m)),
      redis_del = (\<lambda>k m. (Inl (Exn ''ECONNRESET''), m)),
      redis_expire = (\<lambda>k t m. (Inl (Exn ''ECONNRESET''), m)),
      redis_hSet = (\<lambda>k fvs m. (Inl (Exn ''ECONNRESET''), m)),
      redis_hGet = (\<lambda>k f m. (Inl (Exn ''ECONNRESET''), m)),
      redis_hGetAll = (\<lambda>k m. (Inl (Exn ''ECONNRESET''), m)),
      redis_hDel = (\<lambda>k fs m. (Inl (Exn ''ECONNRESET''), m)),
      redis_json_set = (\<lambda>k p v m. (Inl (Exn ''ECONNRESET''), m)),
      redis_json_get = (\<lambda>k opt m. (Inl (Exn ''ECONNRESET''), m))\<rparr>"

text \<open>Fallback producers: one that always yields a string, one whose promise rejects on
  its first call only, and one yielding a document. The state counts the calls.\<close>

definition yields :: "'a \<Rightarrow> (nat, 'a) fallback" where
  "yields v n = (Value v, Suc n)"

definition flaky :: "'a \<Rightarrow> (nat, 'a) fallback" where
  "flaky v n = (if n = 0 then AsyncReject (Exn ''database down'') else Value v, Suc n)"

definition start :: "mem \<Rightarrow> (mem, nat, string) world" where
  "start m = \<lparr>store = m, fbstate = 0, trace = []\<rparr>"

section \<open>The availability gate\<close>

lemmas run_defs = log_def invoke_def await_def skip_def ret_def try_catch_def call_fallback_def
  fallback_awaited_def fallback_returned_def emitted_def outcome_result_def

lemma isRedisInitialized_None: "\<not> isRedisInitialized None"
  by (simp add: isRedisInitialized_def)

lemma gate_get:
  "fst (get None key fb co w) = map_sum id of_undefined (outcome_result (fst (fb (fbstate w))))
   \<and> store_calls (emitted w (snd (get None key fb co w))) = []
   \<and> fallback_calls (emitted w (snd (get None key fb co w))) = 1
   \<and> store (snd (get None key fb co w)) = store w"
  by (simp add: get_def run_defs split: prod.split fb_outcome.split)

lemma gate_hGet:
  "fst (hGet None key field fb t w) = outcome_result (fst (fb (fbstate w)))
   \<and> store_calls (emitted w (snd (hGet None key field fb t w))) = []
   \<and> fallback_calls (emitted w (snd (hGet None key field fb t w))) = 1
   \<and> store (snd (hGet None key field fb t w)) = store w"
  by (simp add: hGet_def run_defs split: prod.split fb_outcome.split)

lemma gate_hGetAll:
  "fst (hGetAll None key fb t w) = outcome_result (fst (fb (fbstate w)))
   \<and> store_calls (emitted w (snd (hGetAll None key fb t w))) = []
   \<and> fallback_calls (emitted w (snd (hGetAll None key fb t w))) = 1
   \<and> store (snd (hGetAll None key fb t w)) = store w"
  by (simp add: hGetAll_def run_defs split: prod.split fb_outcome.split)

lemma gate_jsonGet:
  "fst (jsonGet None key fb opt co w) = outcome_result (fst (fb (fbstate w)))
   \<and> store_calls (emitted w (snd (jsonGet None key fb opt co w))) = []
   \<and> fallback_calls (emitted w (snd (jsonGet None key fb opt co w))) = 1
   \<and> store (snd (jsonGet None key fb opt co w)) = store w"
  by (simp add: jsonGet_def run_defs split: prod.split fb_outcome.split)

lemma gate_writes:
  "set_op None key v so w = (Inr False, log Warn w)"
  "hSet None key m t w = (Inr False, log Warn w)"
  "jsonSet None key p j so w = (Inr False, log Warn w)"
  "hDel None key fs w = (Inr False, log Warn w)"
  "del None key w = (Inr True, log Warn w)"
  by (simp_all add: set_op_def hSet_def jsonSet_def hDel_def del_def)

lemma log_Warn_quiet:
  "store_calls (emitted w (log Warn w)) = []"
  "fallback_calls (emitted w (log Warn w)) = 0"
  "store (log Warn w) = store w"
  "fbstate (log Warn w) = fbstate w"
  by (simp_all add: run_defs)

text \<open>
  C1. With the store handle null, each read (\<open>get\<close>, \<open>hGet\<close>, \<open>hGetAll\<close>,
  \<open>jsonGet\<close>) ends exactly as the one call of the fallback producer it makes ends, each
  write (\<open>set\<close>, \<open>hSet\<close>, \<open>jsonSet\<close>) resolves to false without calling the
  producer, and none of them issues a store call or changes the store.
\<close>

theorem unavailable_store_degrades:
  fixes w :: "('s, 'f, 'o) world"
  shows
  "(fst (get None key fb_s co w) = map_sum id of_undefined (outcome_result (fst (fb_s (fbstate w))))
    \<and> store_calls (emitted w (snd (get None key fb_s co w))) = []
    \<and> fallback_calls (emitted w (snd (get None key fb_s co w))) = 1
    \<and> store (snd (get None key fb_s co w)) = store w)
   \<and> (fst (hGet None key field fb t w) = outcome_result (fst (fb (fbstate w)))
    \<and> store_calls (emitted w (snd (hGet None key field fb t w))) = []
    \<and> fallback_calls (emitted w (snd (hGet None key field fb t w))) = 1
    \<and> store (snd (hGet None key field fb t w)) = store w)
   \<and> (fst (hGetAll None key fb t w) = outcome_result (fst (fb (fbstate w)))
    \<and> store_calls (emitted w (snd (hGetAll None key fb t w))) = []
    \<and> fallback_calls (emitted w (snd (hGetAll None key fb t w))) = 1
    \<and> store (snd (hGetAll None key fb t w)) = store w)
   \<and> (fst (jsonGet None key fb opt cj w) = outcome_result (fst (fb (fbstate w)))
    \<and> store_calls (emitted w (snd (jsonGet None key fb opt cj w))) = []
    \<and> fallback_calls (emitted w (snd (jsonGet None key fb opt cj w))) = 1
    \<and> store (snd (jsonGet None key fb opt cj w)) = store w)
   \<and> (fst (set_op None key v so w) = Inr False
    \<and> store_calls (emitted w (snd (set_op None key v so w))) = []
    \<and> fallback_calls (emitted w (snd (set_op None key v so w))) = 0
    \<and> store (snd (set_op None key v so w)) = store w)
   \<and> (fst (hSet None key m t w) = Inr False
    \<and> store_calls (emitted w (snd (hSet None key m t w))) = []
    \<and> fallback_calls (emitted w (snd (hSet None key m t w))) = 0
    \<and> store (snd (hSet None key m t w)) = store w)
   \<and> (fst (jsonSet None key p j so w) = Inr False
    \<and> store_calls (emitted w (snd (jsonSet None key p j so w))) = []
    \<and> fallback_calls (emitted w (snd (jsonSet None key p j so w))) = 0
    \<and> store (snd (jsonSet None key p j so w)) = store w)"
  using gate_get [of key fb_s co w] gate_hGet [of key field fb t w] gate_hGetAll [of key fb t w]
    gate_jsonGet [of key fb opt cj w]
  by (simp only: gate_writes log_Warn_quiet fst_conv snd_conv simp_thms)

text \<open>The two delete methods at the gate, for any key and world: \<open>del\<close> resolves
  to true, \<open>hDel\<close> to false, and neither issues a store call or changes the store.\<close>

lemma gate_deletes:
  fixes w :: "('s, 'f, 'o) world"
  shows
  "fst (del None key w) = Inr True
   \<and> store_calls (emitted w (snd (del None key w))) = []
   \<and> store (snd (del None key w)) = store w
   \<and> fst (hDel None key fs w) = Inr False
   \<and> store_calls (emitted w (snd (hDel None key fs w))) = []
   \<and> store (snd (hDel None key fs w)) = store w"
  by (simp only: gate_writes log_Warn_quiet fst_conv snd_conv simp_thms)

text \<open>
  C8. Runs with the store handle null: \<open>del\<close> of a key resolves to true, the
  success a delete owes when there is no store, while \<open>hDel\<close> of a field of the
  same key resolves to false; the trace of each holds the warning and no store call.
\<close>

theorem hDel_unavailable_returns_false:
  "fst (hDel None ''k'' (OneField ''f'') (start mem_empty)) = Inr False
   \<and> trace (snd (hDel None ''k'' (OneField ''f'') (start mem_empty))) = [Warn]
   \<and> fst (del None ''k'' (start mem_empty)) = Inr True
   \<and> trace (snd (del None ''k'' (start mem_empty))) = [Warn]"
  by (simp add: hDel_def del_def log_def start_def)

section \<open>Store failures\<close>

text \<open>Each write method resolves, whatever the store does: to true when no store call
  threw, to false when one did.\<close>

lemma set_op_run:
  fixes w :: "('s, 'f, 'o) world"
  assumes "set_op (Some c) key s so w = (r, w')"
  shows "r = Inr (\<not> store_threw (emitted w w'))"
  using assms
  by (auto simp add: set_op_def run_defs isDefined_def Let_def
      split: prod.splits sum.splits option.splits)

lemma hSet_run:
  fixes w :: "('s, 'f, 'o) world"
  assumes "hSet (Some c) key m t w = (r, w')"
  shows "r = Inr (\<not> store_threw (emitted w w'))"
  using assms
  by (auto simp add: hSet_def run_defs
      split: prod.splits sum.splits option.splits if_splits)

lemma jsonSet_run:
  fixes w :: "('s, 'f, 'o) world"
  assumes "jsonSet (Some c) key p j so w = (r, w')"
  shows "r = Inr (\<not> store_threw (emitted w w'))"
  using assms
  by (auto simp add: jsonSet_def run_defs
      split: prod.splits sum.splits option.splits if_splits)

lemma hDel_run:
  fixes w :: "('s, 'f, 'o) world"
  assumes "hDel (Some c) key fs w = (r, w')"
  shows "r = Inr (\<not> store_threw (emitted w w'))"
  using assms
  by (auto simp add: hDel_def run_defs split: prod.splits sum.splits)

lemma del_run:
  fixes w :: "('s, 'f, 'o) world"
  assumes "del (Some c) key w = (r, w')"
  shows "r = Inr (\<not> store_threw (emitted w w'))"
  using assms
  by (auto simp add: del_def run_defs split: prod.splits sum.splits)

text \<open>The write-back calls inside \<open>get\<close> and \<open>jsonGet\<close> never reject.\<close>

lemma set_op_resolves:
  fixes w :: "('s, 'f, 'o) world"
  shows "set_op rc key s so w \<noteq> (Inl e, w')"
  by (auto simp add: set_op_def run_defs isDefined_def Let_def
      split: prod.splits sum.splits option.splits)

lemma jsonSet_resolves:
  fixes w :: "('s, 'f, 'o) world"
  shows "jsonSet rc key p j so w \<noteq> (Inl e, w')"
  by (auto simp add: jsonSet_def run_defs split: prod.splits sum.splits option.splits)

text \<open>A read during which a store call threw resolves to the value of the fallback
  producer, provided the producer yields one.\<close>

lemma get_no_raise:
  fixes w :: "('s, 'f, 'o) world"
  assumes "fst (fb (fbstate w)) = Value d"
    and "get (Some c) key fb co w = (r, w')"
    and "store_threw (emitted w w')"
  shows "r = Inr (of_undefined d)"
  using assms
  by (auto simp add: get_def run_defs Let_def set_op_resolves
      split: prod.splits sum.splits option.splits if_splits fb_outcome.splits)

lemma hGet_no_raise:
  fixes w :: "('s, 'f, 'o) world"
  assumes "fst (fb (fbstate w)) = Value v"
    and "hGet (Some c) key field fb t w = (r, w')"
    and "store_threw (emitted w w')"
  shows "r = Inr v"
  using assms
  by (auto simp add: hGet_def run_defs
      split: prod.splits sum.splits option.splits if_splits fb_outcome.splits)

lemma hGetAll_no_raise:
  fixes w :: "('s, 'f, 'o) world"
  assumes "fst (fb (fbstate w)) = Value v"
    and "hGetAll (Some c) key fb t w = (r, w')"
    and "store_threw (emitted w w')"
  shows "r = Inr v"
  using assms
  by (auto simp add: hGetAll_def run_defs
      split: prod.splits sum.splits option.splits if_splits fb_outcome.splits)

lemma jsonGet_no_raise:
  fixes w :: "('s, 'f, 'o) world"
  assumes "fst (fb (fbstate w)) = Value v"
    and "jsonGet (Some c) key fb opt co w = (r, w')"
    and "store_threw (emitted w w')"
  shows "r = Inr v"
  using assms
  by (auto simp add: jsonGet_def run_defs Let_def jsonSet_resolves
      split: prod.splits sum.splits option.splits if_splits fb_outcome.splits)

text \<open>
  C2. With a live store handle whose methods may throw at any call: \<open>set\<close>,
  \<open>hSet\<close>, \<open>jsonSet\<close>, \<open>hDel\<close> and \<open>del\<close> always resolve, to false exactly when
  a store call threw; and when a store call threw during \<open>get\<close>, \<open>hGet\<close>,
  \<open>hGetAll\<close> or \<open>jsonGet\<close>, the method resolves to the value the fallback producer
  yields. (The producer is assumed to yield a value: its own failure is not a store
  failure.)
\<close>

theorem store_errors_never_raise:
  fixes w :: "('s, 'f, 'o) world"
  assumes "fst (fb_s (fbstate w)) = Value d" and "fst (fb (fbstate w)) = Value v"
  shows
  "fst (set_op (Some c) key s so w)
     = Inr (\<not> store_threw (emitted w (snd (set_op (Some c) key s so w))))
   \<and> fst (hSet (Some c) key m t w)
     = Inr (\<not> store_threw (emitted w (snd (hSet (Some c) key m t w))))
   \<and> fst (jsonSet (Some c) key p j so w)
     = Inr (\<not> store_threw (emitted w (snd (jsonSet (Some c) key p j so w))))
   \<and> fst (hDel (Some c) key fs w)
     = Inr (\<not> store_threw (emitted w (snd (hDel (Some c) key fs w))))
   \<and> fst (del (Some c) key w)
     = Inr (\<not> store_threw (emitted w (snd (del (Some c) key w))))
   \<and> (store_threw (emitted w (snd (get (Some c) key fb_s co w)))
        \<longrightarrow> fst (get (Some c) key fb_s co w) = Inr (of_undefined d))
   \<and> (store_threw (emitted w (snd (hGet (Some c) key field fb t w)))
        \<longrightarrow> fst (hGet (Some c) key field fb t w) = Inr v)
   \<and> (store_threw (emitted w (snd (hGetAll (Some c) key fb t w)))
        \<longrightarrow> fst (hGetAll (Some c) key fb t w) = Inr v)
   \<and> (store_threw (emitted w (snd (jsonGet (Some c) key fb opt cj w)))
        \<longrightarrow> fst (jsonGet (Some c) key fb opt cj w) = Inr v)"
proof -
  have "fst (set_op (Some c) key s so w)
          = Inr (\<not> store_threw (emitted w (snd (set_op (Some c) key s so w))))"
    by (rule set_op_run [of c key s so w]) simp
  moreover have "fst (hSet (Some c) key m t w)
          = Inr (\<not> store_threw (emitted w (snd (hSet (Some c) key m t w))))"
    by (rule hSet_run [of c key m t w]) simp
  moreover have "fst (jsonSet (Some c) key p j so w)
          = Inr (\<not> store_threw (emitted w (snd (jsonSet (Some c) key p j so w))))"
    by (rule jsonSet_run [of c key p j so w]) simp
  moreover have "fst (hDel (Some c) key fs w)
          = Inr (\<not> store_threw (emitted w (snd (hDel (Some c) key fs w))))"
    by (rule hDel_run [of c key fs w]) simp
  moreover have "fst (del (Some c) key w)
          = Inr (\<not> store_threw (emitted w (snd (del (Some c) key w))))"
    by (rule del_run [of c key w]) simp
  moreover have "store_threw (emitted w (snd (get (Some c) key fb_s co w)))
          \<longrightarrow> fst (get (Some c) key fb_s co w) = Inr (of_undefined d)"
    using assms(1) get_no_raise [where fb = fb_s and w = w and d = d and c = c and key = key and co = co] by (metis prod.collapse)
  moreover have "store_threw (emitted w (snd (hGet (Some c) key field fb t w)))
          \<longrightarrow> fst (hGet (Some c) key field fb t w) = Inr v"
    using assms(2) hGet_no_raise [where fb = fb and w = w and v = v and c = c and key = key and field = field and t = t] by (metis prod.collapse)
  moreover have "store_threw (emitted w (snd (hGetAll (Some c) key fb t w)))
          \<longrightarrow> fst (hGetAll (Some c) key fb t w) = Inr v"
    using assms(2) hGetAll_no_raise [where fb = fb and w = w and v = v and c = c and key = key and t = t] by (metis prod.collapse)
  moreover have "store_threw (emitted w (snd (jsonGet (Some c) key fb opt cj w)))
          \<longrightarrow> fst (jsonGet (Some c) key fb opt cj w) = Inr v"
    using assms(2) jsonGet_no_raise [where fb = fb and w = w and v = v and c = c and key = key and opt = opt and co = cj] by (metis prod.collapse)
  ultimately show ?thesis
    by (intro conjI)
qed

lemmas accessor_defs = get_def set_op_def hGet_def hSet_def hGetAll_def hDel_def jsonGet_def
  jsonSet_def del_def ttl_of_options_def ttl_of_get_def resetIfNotFound_of_get_def
  bypass_of_get_def ttl_of_json_def resetIfNotFound_of_json_def truthy_string_def
  truthy_number_def truthy_flag_def isDefined_def of_null_def of_undefined_def

lemmas harness_defs = mem_client_def down_client_def mem_empty_def mem_exists_def start_def
  yields_def flaky_def

theorem store_errors_never_raise_witness:
  "fst (yields (Some ''X'') (fbstate (start mem_empty))) = Value (Some ''X'')
   \<and> fst (yields (JStr ''Y'') (fbstate (start mem_empty))) = Value (JStr ''Y'')
   \<and> fst (set_op (Some down_client) ''k'' ''v'' None (start mem_empty)) = Inr False
   \<and> fst (hSet (Some down_client) ''k'' [(''f'', HNum 1)] None (start mem_empty)) = Inr False
   \<and> fst (jsonSet (Some down_client) ''k'' ''$'' JNull None (start mem_empty)) = Inr False
   \<and> fst (hDel (Some down_client) ''k'' (OneField ''f'') (start mem_empty)) = Inr False
   \<and> fst (del (Some down_client) ''k'' (start mem_empty)) = Inr False
   \<and> store_threw (emitted (start mem_empty)
        (snd (get (Some down_client) ''k'' (yields (Some ''X'')) None (start mem_empty))))
   \<and> fst (get (Some down_client) ''k'' (yields (Some ''X'')) None (start mem_empty))
        = Inr (JStr ''X'')
   \<and> store_threw (emitted (start mem_empty)
        (snd (hGet (Some down_client) ''k'' ''f'' (yields (JStr ''Y'')) None (start mem_empty))))
   \<and> fst (hGet (Some down_client) ''k'' ''f'' (yields (JStr ''Y'')) None (start mem_empty))
        = Inr (JStr ''Y'')
   \<and> store_threw (emitted (start mem_empty)
        (snd (hGetAll (Some down_client) ''k'' (yields (JStr ''Y'')) None (start mem_empty))))
   \<and> fst (hGetAll (Some down_client) ''k'' (yields (JStr ''Y'')) None (start mem_empty))
        = Inr (JStr ''Y'')
   \<and> store_threw (emitted (start mem_empty)
        (snd (jsonGet (Some down_client) ''k'' (yields (JStr ''Y'')) None None
               (start mem_empty))))
   \<and> fst (jsonGet (Some down_client) ''k'' (yields (JStr ''Y'')) None None (start mem_empty))
        = Inr (JStr ''Y'')"
  using store_errors_never_raise [of "yields (Some ''X'')" "start mem_empty" "Some ''X''"
      "yields (JStr ''Y'')" "JStr ''Y''" down_client "''k''" "''v''" None "[(''f'', HNum 1)]" None
      "''$''" JNull "OneField ''f''" None "''f''" None None]
  by (simp add: accessor_defs harness_defs run_defs)

section \<open>Expiry on reads\<close>

text \<open>What \<open>get\<close> does on a hit, for any store handle: it returns the cached string
  and issues no call besides the read.\<close>

lemma get_hit:
  fixes w :: "('s, 'f, 'o) world"
  assumes "redis_get c key (store w) = (Inr (Some v), s')" and "v \<noteq> []"
  shows "get (Some c) key fb co w
           = (Inr (JStr v), w\<lparr>store := s', trace := trace w @ [Call (SGet key)]\<rparr>)"
  using assms
  by (simp add: get_def run_defs Let_def truthy_string_def of_null_def)

text \<open>What \<open>hGet\<close> does when the field is absent and a non-zero TTL is passed: the
  expiry is set all the same, before the fallback producer is consulted.\<close>

lemma hGet_absent_expires:
  fixes w :: "('s, 'f, 'o) world"
  assumes "redis_hGet c key field (store w) = (Inr None, s')" and "t \<noteq> 0"
  shows "take 2 (store_calls (emitted w (snd (hGet (Some c) key field fb (Some t) w))))
           = [SHGet key field, SExpire key t]"
  using assms
  by (simp add: hGet_def run_defs truthy_string_def truthy_number_def
      split: prod.split sum.split fb_outcome.split)

text \<open>
  C3. A run on the reference store: the key \<open>k\<close> holds \<open>v\<close> with 5 seconds to
  live, and \<open>get\<close> is called with \<open>ttl: 100\<close>. It returns \<open>v\<close> without invoking
  the fallback producer, but the read is its only store call: no \<open>expire\<close> is issued and
  the expiry stays at 5.
\<close>

theorem get_hit_leaves_expiry:
  "fst (get (Some mem_client) ''k'' (yields (Some ''X''))
          (Some \<lparr>get_ttl = Some 100, get_resetIfNotFound = None,
                 get_bypassFallbackIfNotFound = None\<rparr>)
          (start (mem_empty\<lparr>strings := [''k'' \<mapsto> ''v''], expiry := [''k'' \<mapsto> 5]\<rparr>)))
     = Inr (JStr ''v'')
   \<and> trace (snd (get (Some mem_client) ''k'' (yields (Some ''X''))
          (Some \<lparr>get_ttl = Some 100, get_resetIfNotFound = None,
                 get_bypassFallbackIfNotFound = None\<rparr>)
          (start (mem_empty\<lparr>strings := [''k'' \<mapsto> ''v''], expiry := [''k'' \<mapsto> 5]\<rparr>))))
     = [Call (SGet ''k'')]
   \<and> expiry (store (snd (get (Some mem_client) ''k'' (yields (Some ''X''))
          (Some \<lparr>get_ttl = Some 100, get_resetIfNotFound = None,
                 get_bypassFallbackIfNotFound = None\<rparr>)
          (start (mem_empty\<lparr>strings := [''k'' \<mapsto> ''v''], expiry := [''k'' \<mapsto> 5]\<rparr>))))) ''k''
     = Some 5"
  by (simp add: accessor_defs harness_defs run_defs)

text \<open>
  C4. A run on the empty reference store: \<open>hGet\<close> of a field of a hash that does not
  exist, with TTL 10. The read returns absent, and \<open>expire\<close> is issued on the key
  all the same, before the fallback producer supplies the result.
\<close>

theorem hGet_miss_still_expires:
  "fst (hGet (Some mem_client) ''h'' ''f'' (yields (JStr ''Y'')) (Some 10) (start mem_empty))
     = Inr (JStr ''Y'')
   \<and> trace (snd (hGet (Some mem_client) ''h'' ''f'' (yields (JStr ''Y'')) (Some 10)
               (start mem_empty)))
     = [Call (SHGet ''h'' ''f''), Call (SExpire ''h'' 10), Fallback]"
  by (simp add: accessor_defs harness_defs run_defs)

section \<open>Misses of \<open>get\<close>\<close>

text \<open>
  C5. The key has no cached value (the read returns null or the empty string), the
  options leave \<^verbatim>\<open>resetIfNotFound\<close> at its default (or set it), and the fallback
  producer yields \<open>d\<close>. Then \<open>get\<close> calls the producer once, right after the read;
  if \<open>d\<close> is a non-empty string, the rest of the run is the run of
  \<open>set(key, d, {ttl})\<close> with the TTL of the options, and otherwise nothing follows; and
  \<open>get\<close> resolves to \<open>d\<close>, whatever the store does in the write-back.
\<close>

theorem get_miss_populates:
  fixes w :: "('s, 'f, 'o) world"
  assumes "redis_get c key (store w) = (Inr result, s1)"
    and "\<not> truthy_string result"
    and "resetIfNotFound_of_get co"
    and "fb (fbstate w) = (Value d, f1)"
  shows
  "fst (get (Some c) key fb co w) = Inr (of_undefined d)
   \<and> snd (get (Some c) key fb co w)
     = (case d of
          None \<Rightarrow> w\<lparr>store := s1, fbstate := f1, trace := trace w @ [Call (SGet key), Fallback]\<rparr>
        | Some s \<Rightarrow>
            if s \<noteq> []
            then snd (set_op (Some c) key s (Some \<lparr>opt_ttl = ttl_of_get co\<rparr>)
                   (w\<lparr>store := s1, fbstate := f1,
                      trace := trace w @ [Call (SGet key), Fallback]\<rparr>))
            else w\<lparr>store := s1, fbstate := f1, trace := trace w @ [Call (SGet key), Fallback]\<rparr>)"
  using assms
  by (simp add: get_def run_defs Let_def truthy_string_def set_op_resolves
      split: prod.split sum.split option.split)

theorem get_miss_populates_witness:
  "redis_get mem_client ''k'' (store (start mem_empty)) = (Inr None, mem_empty)
   \<and> \<not> truthy_string None
   \<and> resetIfNotFound_of_get None
   \<and> yields (Some ''X'') (fbstate (start mem_empty)) = (Value (Some ''X''), 1)
   \<and> fst (get (Some mem_client) ''k'' (yields (Some ''X'')) None (start mem_empty))
       = Inr (JStr ''X'')
   \<and> snd (get (Some mem_client) ''k'' (yields (Some ''X'')) None (start mem_empty))
       = snd (set_op (Some mem_client) ''k'' ''X'' (Some \<lparr>opt_ttl = None\<rparr>)
               ((start mem_empty)\<lparr>store := mem_empty, fbstate := 1,
                  trace := trace (start mem_empty) @ [Call (SGet ''k''), Fallback]\<rparr>))
   \<and> redis_get mem_client ''k''
         (store (snd (get (Some mem_client) ''k'' (yields (Some ''X'')) None (start mem_empty))))
       = (Inr (Some ''X''),
          store (snd (get (Some mem_client) ''k'' (yields (Some ''X'')) None (start mem_empty))))"
  using get_miss_populates [of mem_client "''k''" "start mem_empty" None mem_empty None
      "yields (Some ''X'')" "Some ''X''" 1]
  by (simp add: accessor_defs harness_defs run_defs)

text \<open>
  C6, as stated, fails: on the empty reference store, \<open>get\<close> with
  \<^verbatim>\<open>bypassFallbackIfNotFound: true\<close> and \<^verbatim>\<open>resetIfNotFound\<close> left at its default
  invokes the fallback producer, writes its value back and returns it, not the null of
  the miss.
\<close>

theorem get_bypass_default_reset_counterexample:
  "fst (get (Some mem_client) ''k'' (yields (Some ''X''))
          (Some \<lparr>get_ttl = None, get_resetIfNotFound = None,
                 get_bypassFallbackIfNotFound = Some True\<rparr>) (start mem_empty))
     = Inr (JStr ''X'')
   \<and> fst (get (Some mem_client) ''k'' (yields (Some ''X''))
          (Some \<lparr>get_ttl = None, get_resetIfNotFound = None,
                 get_bypassFallbackIfNotFound = Some True\<rparr>) (start mem_empty))
     \<noteq> Inr (of_null None)
   \<and> fallback_calls (trace (snd (get (Some mem_client) ''k'' (yields (Some ''X''))
          (Some \<lparr>get_ttl = None, get_resetIfNotFound = None,
                 get_bypassFallbackIfNotFound = Some True\<rparr>) (start mem_empty))))
     = 1"
  by (simp add: accessor_defs harness_defs run_defs)

text \<open>
  C6, amended. On a miss (the read returns null or the empty string) with
  \<^verbatim>\<open>bypassFallbackIfNotFound\<close> true and \<^verbatim>\<open>resetIfNotFound\<close> false, \<open>get\<close>
  resolves to the value read, as it is, and the read is all it does: the fallback
  producer is not invoked.
\<close>

theorem get_miss_bypass:
  fixes w :: "('s, 'f, 'o) world"
  assumes "redis_get c key (store w) = (Inr result, s1)"
    and "\<not> truthy_string result"
    and "\<not> resetIfNotFound_of_get co"
    and "truthy_flag (bypass_of_get co)"
  shows
  "fst (get (Some c) key fb co w) = Inr (of_null result)
   \<and> emitted w (snd (get (Some c) key fb co w)) = [Call (SGet key)]
   \<and> fallback_calls (emitted w (snd (get (Some c) key fb co w))) = 0
   \<and> fbstate (snd (get (Some c) key fb co w)) = fbstate w"
  using assms
  by (simp add: get_def run_defs Let_def)

theorem get_miss_bypass_witness:
  "redis_get mem_client ''k'' (store (start mem_empty)) = (Inr None, mem_empty)
   \<and> \<not> truthy_string None
   \<and> \<not> resetIfNotFound_of_get (Some \<lparr>get_ttl = None, get_resetIfNotFound = Some False,
                 get_bypassFallbackIfNotFound = Some True\<rparr>)
   \<and> truthy_flag (bypass_of_get (Some \<lparr>get_ttl = None, get_resetIfNotFound = Some False,
                 get_bypassFallbackIfNotFound = Some True\<rparr>))
   \<and> fst (get (Some mem_client) ''k'' (yields (Some ''X''))
          (Some \<lparr>get_ttl = None, get_resetIfNotFound = Some False,
                 get_bypassFallbackIfNotFound = Some True\<rparr>) (start mem_empty))
     = Inr JNull
   \<and> fallback_calls (emitted (start mem_empty)
        (snd (get (Some mem_client) ''k'' (yields (Some ''X''))
          (Some \<lparr>get_ttl = None, get_resetIfNotFound = Some False,
                 get_bypassFallbackIfNotFound = Some True\<rparr>) (start mem_empty))))
     = 0"
  using get_miss_bypass [of mem_client "''k''" "start mem_empty" None mem_empty
      "Some \<lparr>get_ttl = None, get_resetIfNotFound = Some False,
             get_bypassFallbackIfNotFound = Some True\<rparr>" "yields (Some ''X'')"]
  by (simp add: accessor_defs harness_defs run_defs)

section \<open>Misses of \<open>jsonGet\<close>\<close>

lemma jsonSet_first_call:
  fixes w :: "('s, 'f, 'o) world"
  shows "take (Suc (length (trace w))) (trace (snd (jsonSet (Some c) key p j so w)))
           = trace w @ [Call (SJsonSet key p j)]"
  by (simp add: jsonSet_def run_defs split: prod.split sum.split option.split)

text \<open>
  C7. The read of \<open>jsonGet\<close> returns a miss (null, or any other falsy value),
  \<^verbatim>\<open>resetIfNotFound\<close> is true or left at its default, and the fallback producer yields
  \<open>d\<close>. Then \<open>jsonGet\<close> calls the producer once, right after the read; the rest
  of the run is the run of \<open>jsonSet(key, '$', d, {ttl})\<close>, so the next store call
  writes \<open>d\<close> at the root path whatever the options of the read were; and
  \<open>jsonGet\<close> resolves to \<open>d\<close>, whatever the store does in the write-back.
\<close>

theorem jsonGet_miss_replaces_document:
  fixes w :: "('s, 'f, 'o) world"
  assumes "redis_json_get c key opt (store w) = (Inr result, s1)"
    and "\<not> truthy result"
    and "resetIfNotFound_of_json co"
    and "fb (fbstate w) = (Value d, f1)"
  shows
  "fst (jsonGet (Some c) key fb opt co w) = Inr d
   \<and> snd (jsonGet (Some c) key fb opt co w)
     = snd (jsonSet (Some c) key ''$'' d (Some \<lparr>opt_ttl = ttl_of_json co\<rparr>)
         (w\<lparr>store := s1, fbstate := f1,
            trace := trace w @ [Call (SJsonGet key opt), Fallback]\<rparr>))
   \<and> take 3 (emitted w (snd (jsonGet (Some c) key fb opt co w)))
     = [Call (SJsonGet key opt), Fallback, Call (SJsonSet key ''$'' d)]"
proof -
  let ?w2 = "w\<lparr>store := s1, fbstate := f1,
               trace := trace w @ [Call (SJsonGet key opt), Fallback]\<rparr>"
  let ?set = "jsonSet (Some c) key ''$'' d (Some \<lparr>opt_ttl = ttl_of_json co\<rparr>) ?w2"
  have run: "jsonGet (Some c) key fb opt co w = (Inr d, snd ?set)"
    using assms
    by (simp add: jsonGet_def run_defs Let_def jsonSet_resolves
        split: prod.split sum.split)
  have "take (Suc (length (trace ?w2))) (trace (snd ?set))
          = trace ?w2 @ [Call (SJsonSet key ''$'' d)]"
    by (rule jsonSet_first_call)
  then have "take (length (trace w) + 3) (trace (snd ?set))
          = trace w @ [Call (SJsonGet key opt), Fallback, Call (SJsonSet key ''$'' d)]"
    by (simp add: numeral_3_eq_3)
  then have "drop (length (trace w)) (take (length (trace w) + 3) (trace (snd ?set)))
          = [Call (SJsonGet key opt), Fallback, Call (SJsonSet key ''$'' d)]"
    by simp
  then have "take 3 (emitted w (snd ?set))
          = [Call (SJsonGet key opt), Fallback, Call (SJsonSet key ''$'' d)]"
    by (simp add: emitted_def drop_take add.commute)
  with run show ?thesis
    by simp
qed

theorem jsonGet_miss_replaces_document_witness:
  "redis_json_get mem_client ''doc'' (Some ''z'')
       (store (start (mem_empty\<lparr>documents :=
          [''doc'' \<mapsto> JObj [(''x'', JNum 1), (''y'', JNum 2)]]\<rparr>)))
     = (Inr JNull, mem_empty\<lparr>documents := [''doc'' \<mapsto> JObj [(''x'', JNum 1), (''y'', JNum 2)]]\<rparr>)
   \<and> \<not> truthy JNull
   \<and> resetIfNotFound_of_json None
   \<and> yields (JObj [(''a'', JNum 1)]) (fbstate (start (mem_empty\<lparr>documents :=
          [''doc'' \<mapsto> JObj [(''x'', JNum 1), (''y'', JNum 2)]]\<rparr>)))
     = (Value (JObj [(''a'', JNum 1)]), 1)
   \<and> fst (jsonGet (Some mem_client) ''doc'' (yields (JObj [(''a'', JNum 1)])) (Some ''z'') None
        (start (mem_empty\<lparr>documents :=
          [''doc'' \<mapsto> JObj [(''x'', JNum 1), (''y'', JNum 2)]]\<rparr>)))
     = Inr (JObj [(''a'', JNum 1)])
   \<and> take 3 (emitted (start (mem_empty\<lparr>documents :=
          [''doc'' \<mapsto> JObj [(''x'', JNum 1), (''y'', JNum 2)]]\<rparr>))
        (snd (jsonGet (Some mem_client) ''doc'' (yields (JObj [(''a'', JNum 1)])) (Some ''z'') None
          (start (mem_empty\<lparr>documents :=
            [''doc'' \<mapsto> JObj [(''x'', JNum 1), (''y'', JNum 2)]]\<rparr>)))))
     = [Call (SJsonGet ''doc'' (Some ''z'')), Fallback,
        Call (SJsonSet ''doc'' ''$'' (JObj [(''a'', JNum 1)]))]
   \<and> documents (store (snd (jsonGet (Some mem_client) ''doc'' (yields (JObj [(''a'', JNum 1)]))
        (Some ''z'') None
        (start (mem_empty\<lparr>documents :=
          [''doc'' \<mapsto> JObj [(''x'', JNum 1), (''y'', JNum 2)]]\<rparr>))))) ''doc''
     = Some (JObj [(''a'', JNum 1)])"
  using jsonGet_miss_replaces_document [of mem_client "''doc''" "Some ''z''"
      "start (mem_empty\<lparr>documents := [''doc'' \<mapsto> JObj [(''x'', JNum 1), (''y'', JNum 2)]]\<rparr>)"
      JNull "mem_empty\<lparr>documents := [''doc'' \<mapsto> JObj [(''x'', JNum 1), (''y'', JNum 2)]]\<rparr>"
      None "yields (JObj [(''a'', JNum 1)])" "JObj [(''a'', JNum 1)]" 1]
  by (simp add: accessor_defs harness_defs run_defs)

section \<open>Failures of the fallback producer\<close>

text \<open>
  C9. Runs on the empty reference store with a producer whose promise rejects on the
  first call and resolves to \<open>X\<close> afterwards. On the miss, \<open>get\<close> and
  \<open>jsonGet\<close> await the producer inside their \<^verbatim>\<open>try\<close> block: the rejection is
  caught and logged as a store error, the producer is invoked a second time, and the
  caller receives \<open>X\<close> instead of the rejection.
\<close>

theorem fallback_failure_caught_and_retried:
  "fst (get (Some mem_client) ''k'' (flaky (Some ''X'')) None (start mem_empty))
     = Inr (JStr ''X'')
   \<and> trace (snd (get (Some mem_client) ''k'' (flaky (Some ''X'')) None (start mem_empty)))
     = [Call (SGet ''k''), Fallback, Error, Fallback]
   \<and> fst (jsonGet (Some mem_client) ''k'' (flaky (JStr ''X'')) None None (start mem_empty))
     = Inr (JStr ''X'')
   \<and> trace (snd (jsonGet (Some mem_client) ''k'' (flaky (JStr ''X'')) None None
               (start mem_empty)))
     = [Call (SJsonGet ''k'' None), Fallback, Error, Fallback]"
  by (simp add: accessor_defs harness_defs run_defs)

section \<open>A TTL of zero\<close>

text \<open>
  C10. With TTL 0 and any store handle: \<open>set\<close>, which tests
  \<^verbatim>\<open>isDefined(ttl)\<close>, issues \<open>expire(key, 0)\<close> once its write has succeeded, so
  its store calls are the write and the expire, and the store it leaves is the one the
  client's \<open>expire\<close> returns on the store the write left. \<open>hSet\<close> and
  \<open>jsonSet\<close>, which test the truthiness of the TTL, issue their write and nothing
  else: the store they leave is the one their write returns.
\<close>

theorem ttl_zero_disagreement:
  fixes w :: "('s, 'f, 'o) world"
  assumes "redis_set c key v (store w) = (Inr u, s1)"
  shows
  "store_calls (emitted w (snd (set_op (Some c) key v (Some \<lparr>opt_ttl = Some 0\<rparr>) w)))
     = [SSet key v, SExpire key 0]
   \<and> store (snd (set_op (Some c) key v (Some \<lparr>opt_ttl = Some 0\<rparr>) w))
     = snd (redis_expire c key 0 s1)
   \<and> fst (set_op (Some c) key v (Some \<lparr>opt_ttl = Some 0\<rparr>) w)
     = (case fst (redis_expire c key 0 s1) of Inl e \<Rightarrow> Inr False | Inr x \<Rightarrow> Inr True)
   \<and> store_calls (emitted w (snd (hSet (Some c) key m (Some 0) w))) = [SHSet key m]
   \<and> store (snd (hSet (Some c) key m (Some 0) w)) = snd (redis_hSet c key m (store w))
   \<and> fst (hSet (Some c) key m (Some 0) w)
     = (case fst (redis_hSet c key m (store w)) of Inl e \<Rightarrow> Inr False | Inr x \<Rightarrow> Inr True)
   \<and> store_calls (emitted w (snd (jsonSet (Some c) key p j (Some \<lparr>opt_ttl = Some 0\<rparr>) w)))
     = [SJsonSet key p j]
   \<and> store (snd (jsonSet (Some c) key p j (Some \<lparr>opt_ttl = Some 0\<rparr>) w))
     = snd (redis_json_set c key p j (store w))
   \<and> fst (jsonSet (Some c) key p j (Some \<lparr>opt_ttl = Some 0\<rparr>) w)
     = (case fst (redis_json_set c key p j (store w)) of
          Inl e \<Rightarrow> Inr False | Inr x \<Rightarrow> Inr True)"
proof -
  have set_part:
    "store_calls (emitted w (snd (set_op (Some c) key v (Some \<lparr>opt_ttl = Some 0\<rparr>) w)))
       = [SSet key v, SExpire key 0]
     \<and> store (snd (set_op (Some c) key v (Some \<lparr>opt_ttl = Some 0\<rparr>) w))
       = snd (redis_expire c key 0 s1)
     \<and> fst (set_op (Some c) key v (Some \<lparr>opt_ttl = Some 0\<rparr>) w)
       = (case fst (redis_expire c key 0 s1) of Inl e \<Rightarrow> Inr False | Inr x \<Rightarrow> Inr True)"
    using assms
    by (simp add: set_op_def run_defs Let_def ttl_of_options_def isDefined_def
        split: prod.split sum.split)
  have hSet_part:
    "store_calls (emitted w (snd (hSet (Some c) key m (Some 0) w))) = [SHSet key m]
     \<and> store (snd (hSet (Some c) key m (Some 0) w)) = snd (redis_hSet c key m (store w))
     \<and> fst (hSet (Some c) key m (Some 0) w)
       = (case fst (redis_hSet c key m (store w)) of Inl e \<Rightarrow> Inr False | Inr x \<Rightarrow> Inr True)"
    by (simp add: hSet_def run_defs truthy_number_def split: prod.split sum.split)
  have jsonSet_part:
    "store_calls (emitted w (snd (jsonSet (Some c) key p j (Some \<lparr>opt_ttl = Some 0\<rparr>) w)))
       = [SJsonSet key p j]
     \<and> store (snd (jsonSet (Some c) key p j (Some \<lparr>opt_ttl = Some 0\<rparr>) w))
       = snd (redis_json_set c key p j (store w))
     \<and> fst (jsonSet (Some c) key p j (Some \<lparr>opt_ttl = Some 0\<rparr>) w)
       = (case fst (redis_json_set c key p j (store w)) of
            Inl e \<Rightarrow> Inr False | Inr x \<Rightarrow> Inr True)"
    by (simp add: jsonSet_def run_defs ttl_of_options_def truthy_number_def
        split: prod.split sum.split)
  from set_part hSet_part jsonSet_part show ?thesis
    by (elim conjE) (intro conjI; assumption)
qed

text \<open>On the reference store, where the key held \<open>old\<close>: after \<open>set\<close> with TTL 0
  the key is gone (written, then expired at once); after \<open>hSet\<close> and \<open>jsonSet\<close>
  with TTL 0 the hash and the document are there, with no expiry.\<close>

theorem ttl_zero_disagreement_witness:
  "redis_set mem_client ''k'' ''v'' (store (start (mem_empty\<lparr>strings := [''k'' \<mapsto> ''old'']\<rparr>)))
     = (Inr (), mem_empty\<lparr>strings := [''k'' \<mapsto> ''v'']\<rparr>)
   \<and> store_calls (emitted (start (mem_empty\<lparr>strings := [''k'' \<mapsto> ''old'']\<rparr>))
        (snd (set_op (Some mem_client) ''k'' ''v'' (Some \<lparr>opt_ttl = Some 0\<rparr>)
               (start (mem_empty\<lparr>strings := [''k'' \<mapsto> ''old'']\<rparr>)))))
     = [SSet ''k'' ''v'', SExpire ''k'' 0]
   \<and> store (snd (set_op (Some mem_client) ''k'' ''v'' (Some \<lparr>opt_ttl = Some 0\<rparr>)
               (start (mem_empty\<lparr>strings := [''k'' \<mapsto> ''old'']\<rparr>))))
     = snd (redis_expire mem_client ''k'' 0 (mem_empty\<lparr>strings := [''k'' \<mapsto> ''v'']\<rparr>))
   \<and> strings (store (snd (set_op (Some mem_client) ''k'' ''v'' (Some \<lparr>opt_ttl = Some 0\<rparr>)
               (start (mem_empty\<lparr>strings := [''k'' \<mapsto> ''old'']\<rparr>))))) ''k''
     = None
   \<and> fst (set_op (Some mem_client) ''k'' ''v'' (Some \<lparr>opt_ttl = Some 0\<rparr>)
               (start (mem_empty\<lparr>strings := [''k'' \<mapsto> ''old'']\<rparr>)))
     = Inr True
   \<and> store_calls (emitted (start (mem_empty\<lparr>strings := [''k'' \<mapsto> ''old'']\<rparr>))
        (snd (hSet (Some mem_client) ''k'' [(''f'', HStr ''v'')] (Some 0)
               (start (mem_empty\<lparr>strings := [''k'' \<mapsto> ''old'']\<rparr>)))))
     = [SHSet ''k'' [(''f'', HStr ''v'')]]
   \<and> hashes (store (snd (hSet (Some mem_client) ''k'' [(''f'', HStr ''v'')] (Some 0)
               (start (mem_empty\<lparr>strings := [''k'' \<mapsto> ''old'']\<rparr>))))) ''k''
     = Some [(''f'', ''v'')]
   \<and> expiry (store (snd (hSet (Some mem_client) ''k'' [(''f'', HStr ''v'')] (Some 0)
               (start (mem_empty\<lparr>strings := [''k'' \<mapsto> ''old'']\<rparr>))))) ''k''
     = None
   \<and> store_calls (emitted (start (mem_empty\<lparr>strings := [''k'' \<mapsto> ''old'']\<rparr>))
        (snd (jsonSet (Some mem_client) ''k'' ''$'' (JNum 1) (Some \<lparr>opt_ttl = Some 0\<rparr>)
               (start (mem_empty\<lparr>strings := [''k'' \<mapsto> ''old'']\<rparr>)))))
     = [SJsonSet ''k'' ''$'' (JNum 1)]
   \<and> documents (store (snd (jsonSet (Some mem_client) ''k'' ''$'' (JNum 1)
               (Some \<lparr>opt_ttl = Some 0\<rparr>)
               (start (mem_empty\<lparr>strings := [''k'' \<mapsto> ''old'']\<rparr>))))) ''k''
     = Some (JNum 1)
   \<and> expiry (store (snd (jsonSet (Some mem_client) ''k'' ''$'' (JNum 1)
               (Some \<lparr>opt_ttl = Some 0\<rparr>)
               (start (mem_empty\<lparr>strings := [''k'' \<mapsto> ''old'']\<rparr>))))) ''k''
     = None"
  using ttl_zero_disagreement [of mem_client "''k''" "''v''"
      "start (mem_empty\<lparr>strings := [''k'' \<mapsto> ''old'']\<rparr>)" "()"
      "mem_empty\<lparr>strings := [''k'' \<mapsto> ''v'']\<rparr>" "[(''f'', HStr ''v'')]" "''$''" "JNum 1"]
  by (simp add: accessor_defs harness_defs run_defs show_hvalue_def)

end
